theory Spec2Isabelle
  imports Complex_Main
begin

section \<open>Object pool (core/game-engine.js, class ObjectPool)\<close>

text \<open>
  JavaScript objects have identity: \<open>this.active.has(obj)\<close> and \<open>this.pool.pop()\<close> speak
  about references, not about field values. A reference is a natural number here, and the
  pool carries the part of the heap it allocated itself (\<open>heap\<close>), together with the next
  unused reference (\<open>nextRef\<close>), so that \<open>createFn()\<close>, which is \<open>() => new Bullet(...)\<close>
  and the like at every call site, yields an object that no earlier call yielded.

  \<open>pool\<close> is the JavaScript array of free objects (\<open>push\<close> appends, \<open>pop\<close> takes the
  last element). \<open>active\<close> is the JavaScript \<open>Set\<close>, kept as a list in insertion
  order, which is the order \<open>Array.from(this.active)\<close> enumerates.
\<close>

type_synonym ref = nat

record stats =
  totalCreated :: nat
  maxActive :: nat
  poolHits :: nat
  poolMisses :: nat

record 'o ObjectPool =
  createFn :: "ref \<Rightarrow> 'o"
  resetFn :: "'o \<Rightarrow> 'o"
  pool :: "ref list"
  active :: "ref list"
  stats :: stats
  heap :: "ref \<Rightarrow> 'o option"
  nextRef :: ref

text \<open>\<open>Set.prototype.add\<close>, \<open>has\<close> and \<open>delete\<close> on the insertion-ordered list.\<close>

definition set_add :: "'a \<Rightarrow> 'a list \<Rightarrow> 'a list" where
  "set_add v s = (if v \<in> set s then s else s @ [v])"

definition set_has :: "'a \<Rightarrow> 'a list \<Rightarrow> bool" where
  "set_has v s = (v \<in> set s)"

definition set_delete :: "'a \<Rightarrow> 'a list \<Rightarrow> 'a list" where
  "set_delete v s = removeAll v s"

text \<open>
  The pre-population loop of the constructor: \<open>this.pool.push(this.createFn())\<close>, once
  for each \<open>i < initialSize\<close>. The first argument counts the iterations left.
\<close>

fun prepopulate :: "nat \<Rightarrow> 'o ObjectPool \<Rightarrow> 'o ObjectPool" where
  "prepopulate 0 p = p"
| "prepopulate (Suc k) p =
     prepopulate k
       (p\<lparr>pool := pool p @ [nextRef p],
          heap := (heap p)(nextRef p \<mapsto> createFn p (nextRef p)),
          nextRef := Suc (nextRef p)\<rparr>)"

text \<open>
  \<open>constructor(createFn, resetFn, initialSize = 20)\<close>. \<open>initialSize\<close> is a count of
  objects, hence a natural number.
\<close>

definition ObjectPool_new :: "(ref \<Rightarrow> 'o) \<Rightarrow> ('o \<Rightarrow> 'o) \<Rightarrow> nat \<Rightarrow> 'o ObjectPool" where
  "ObjectPool_new c r initialSize =
     (prepopulate initialSize
        \<lparr>createFn = c, resetFn = r, pool = [], active = [],
         stats = \<lparr>totalCreated = 0, maxActive = 0, poolHits = 0, poolMisses = 0\<rparr>,
         heap = Map.empty, nextRef = 0\<rparr>)
     \<lparr>stats := \<lparr>totalCreated = initialSize, maxActive = 0, poolHits = 0, poolMisses = 0\<rparr>\<rparr>"

text \<open>\<open>get()\<close>: the returned reference and the pool after the call.\<close>

definition ObjectPool_get :: "'o ObjectPool \<Rightarrow> ref \<times> 'o ObjectPool" where
  "ObjectPool_get p =
     (let (obj, p1) =
            (if length (pool p) > 0
             then (last (pool p),
                   p\<lparr>pool := butlast (pool p),
                     stats := (stats p)\<lparr>poolHits := poolHits (stats p) + 1\<rparr>\<rparr>)
             else (nextRef p,
                   p\<lparr>heap := (heap p)(nextRef p \<mapsto> createFn p (nextRef p)),
                     nextRef := Suc (nextRef p),
                     stats := (stats p)\<lparr>poolMisses := poolMisses (stats p) + 1,
                                        totalCreated := totalCreated (stats p) + 1\<rparr>\<rparr>));
          p2 = p1\<lparr>active := set_add obj (active p1)\<rparr>
      in (obj, p2\<lparr>stats := (stats p2)\<lparr>maxActive :=
                      max (maxActive (stats p2)) (length (active p2))\<rparr>\<rparr>))"

text \<open>\<open>release(obj)\<close>: nothing happens unless \<open>obj\<close> is in the active set.\<close>

definition ObjectPool_release :: "'o ObjectPool \<Rightarrow> ref \<Rightarrow> 'o ObjectPool" where
  "ObjectPool_release p obj =
     (if set_has obj (active p)
      then p\<lparr>active := set_delete obj (active p),
             heap := (heap p)(obj := map_option (resetFn p) (heap p obj)),
             pool := pool p @ [obj]\<rparr>
      else p)"

text \<open>A call made on a pool, and a finite sequence of calls run from left to right.\<close>

datatype pool_call = Get | Release ref

fun pool_step :: "'o ObjectPool \<Rightarrow> pool_call \<Rightarrow> 'o ObjectPool" where
  "pool_step p Get = snd (ObjectPool_get p)"
| "pool_step p (Release obj) = ObjectPool_release p obj"

definition pool_run :: "'o ObjectPool \<Rightarrow> pool_call list \<Rightarrow> 'o ObjectPool" where
  "pool_run p cs = foldl pool_step p cs"

text \<open>
  The invariant carried along a run: the free array and the active set are duplicate-free
  and disjoint, together they are exactly the references allocated so far, and the
  lifetime counter equals their number.
\<close>

definition pool_ok :: "'o ObjectPool \<Rightarrow> bool" where
  "pool_ok p =
     (distinct (pool p @ active p) \<and>
      set (pool p) \<union> set (active p) = {0 ..< nextRef p} \<and>
      totalCreated (stats p) = nextRef p)"


section \<open>Entities and the spatial grid (core/game-engine.js, class SpatialGrid)\<close>

text \<open>
  Every game object (player, alien, bullet, power-up) is a JavaScript object with the
  fields \<open>x\<close>, \<open>y\<close>, \<open>width\<close> and \<open>height\<close>; \<open>ident\<close> is the object's identity, which
  \<open>Array.prototype.includes\<close> and \<open>indexOf\<close> compare. The kinds of object extend this
  record with their own fields. JavaScript numbers are modelled as real numbers: the
  rounding of IEEE doubles, \<open>NaN\<close> and the infinities are outside the model.
\<close>

record entity =
  ident :: ref
  x :: real
  y :: real
  width :: real
  height :: real

record 'e SpatialGrid =
  cellSize :: real
  cols :: int
  rows :: int
  grid :: "'e list list"

datatype js_error = RangeError

text \<open>
  \<open>constructor(width, height, cellSize)\<close>. \<open>Array(n)\<close> throws a \<open>RangeError\<close> unless
  \<open>n\<close> is an integer from \<open>0\<close> to \<open>2\<^sup>3\<^sup>2 - 1\<close>. With \<open>cellSize = 0\<close> the quotients are
  infinite or \<open>NaN\<close>, and so is their product, which \<open>Array\<close> rejects.
\<close>

definition SpatialGrid_new :: "real \<Rightarrow> real \<Rightarrow> real \<Rightarrow> js_error + 'e SpatialGrid" where
  "SpatialGrid_new w h c =
     (let cs = \<lceil>w / c\<rceil>; rs = \<lceil>h / c\<rceil>
      in if c = 0 \<or> cs * rs < 0 \<or> 2 ^ 32 \<le> cs * rs then Inl RangeError
         else Inr \<lparr>cellSize = c, cols = cs, rows = rs,
                   grid = replicate (nat (cs * rs)) []\<rparr>)"

definition getCellIndex :: "'e SpatialGrid \<Rightarrow> real \<Rightarrow> real \<Rightarrow> int" where
  "getCellIndex g px py =
     (let col = \<lfloor>px / cellSize g\<rfloor>; row = \<lfloor>py / cellSize g\<rfloor>
      in row * cols g + col)"

text \<open>\<open>insert(entity)\<close>: the push happens only under the guard on the linear index.\<close>

definition SpatialGrid_insert ::
  "('a entity_scheme) SpatialGrid \<Rightarrow> 'a entity_scheme \<Rightarrow> ('a entity_scheme) SpatialGrid" where
  "SpatialGrid_insert g e =
     (let index = getCellIndex g (x e) (y e)
      in if index \<ge> 0 \<and> index < int (length (grid g))
         then g\<lparr>grid := (grid g)[nat index := (grid g ! nat index) @ [e]]\<rparr>
         else g)"

text \<open>
  \<open>getNearbyEntities(x, y)\<close>: the two nested loops, \<open>dy\<close> outermost, each over \<open>-1, 0, 1\<close>;
  \<open>nearbyCell\<close> is the body of the inner loop, the bucket pushed for one pair of offsets
  (nothing when the guard fails).
\<close>

definition nearbyCell :: "'e SpatialGrid \<Rightarrow> int \<Rightarrow> int \<Rightarrow> int \<Rightarrow> int \<Rightarrow> 'e list" where
  "nearbyCell g col row dy dx =
     (let checkCol = col + dx; checkRow = row + dy;
          index = checkRow * cols g + checkCol
      in if index \<ge> 0 \<and> index < int (length (grid g)) then grid g ! nat index else [])"

definition getNearbyEntities :: "'e SpatialGrid \<Rightarrow> real \<Rightarrow> real \<Rightarrow> 'e list" where
  "getNearbyEntities g px py =
     (let col = \<lfloor>px / cellSize g\<rfloor>; row = \<lfloor>py / cellSize g\<rfloor>
      in concat (map (\<lambda>dy. concat (map (\<lambda>dx. nearbyCell g col row dy dx) [-1, 0, 1]))
                     [-1, 0, 1]))"


text \<open>\<open>entities.forEach(e => grid.insert(e))\<close>.\<close>

definition insertAll ::
  "('a entity_scheme) SpatialGrid \<Rightarrow> 'a entity_scheme list \<Rightarrow> ('a entity_scheme) SpatialGrid" where
  "insertAll g es = foldl SpatialGrid_insert g es"

section \<open>Player (entities/player.js)\<close>

text \<open>
  The fields set by the constructor, followed by the five properties that the game adds
  to the player object when the matching power-up is first collected
  (\<open>this.player[effect.playerProp] = ...\<close>); an absent property reads as false.
\<close>

record Player = entity +
  startX :: real
  startY :: real
  speed :: real
  rapidFire :: bool
  shield :: bool
  tripleShot :: bool
  splitShot :: bool
  laser :: bool
  pointsMultiplier :: real
  thrusterAnimation :: real
  quadShot :: bool
  guidedShot :: bool
  timeWarp :: bool
  diamondShot :: bool
  chainLightning :: bool

text \<open>\<open>new Player(x, y)\<close>, with \<open>GAME_CONFIG.player\<close>: width 40, height 30, speed 5.\<close>

definition Player_new :: "ref \<Rightarrow> real \<Rightarrow> real \<Rightarrow> Player" where
  "Player_new r px py =
     \<lparr>ident = r, x = px, y = py, width = 40, height = 30,
      startX = px, startY = py, speed = 5,
      rapidFire = False, shield = False, tripleShot = False, splitShot = False,
      laser = False, pointsMultiplier = 1, thrusterAnimation = 0,
      quadShot = False, guidedShot = False, timeWarp = False, diamondShot = False,
      chainLightning = False\<rparr>"

text \<open>
  The keyboard branch of \<open>update\<close>: two tests in sequence, the second on the position
  the first may have changed. \<open>keys\<close> is the set of key codes held down.
\<close>

definition keyboardControl :: "Player \<Rightarrow> string set \<Rightarrow> real \<Rightarrow> Player" where
  "keyboardControl p keys canvasWidth =
     (let p1 = (if ''ArrowLeft'' \<in> keys \<and> x p > 0
                then p\<lparr>x := x p - Player.speed p\<rparr> else p)
      in if ''ArrowRight'' \<in> keys \<and> x p1 < canvasWidth - width p1
         then p1\<lparr>x := x p1 + Player.speed p1\<rparr> else p1)"

text \<open>
  \<open>update(keys, canvasWidth, mouseX = null, useMouseControl = false)\<close>; \<open>mouseX\<close> is
  \<open>None\<close> for \<open>null\<close>.
\<close>

definition Player_update ::
  "Player \<Rightarrow> string set \<Rightarrow> real \<Rightarrow> real option \<Rightarrow> bool \<Rightarrow> Player" where
  "Player_update p keys canvasWidth mouseX useMouseControl =
     (let p1 = p\<lparr>thrusterAnimation := thrusterAnimation p + 0.2\<rparr>;
          p2 = (case mouseX of
                  Some m \<Rightarrow>
                    if useMouseControl
                    then (let targetX = m - width p1 / 2;
                              diff = targetX - x p1;
                              smoothingFactor = 0.15
                          in p1\<lparr>x := x p1 + diff * smoothingFactor\<rparr>)
                    else keyboardControl p1 keys canvasWidth
                | None \<Rightarrow> keyboardControl p1 keys canvasWidth)
      in p2\<lparr>x := max 0 (min (canvasWidth - width p2) (x p2))\<rparr>)"

section \<open>Bullet (entities/bullet.js)\<close>

text \<open>
  \<open>game\<close> tells whether the reference to the game is set. \<open>guidedShot\<close>, \<open>diamondShot\<close>
  and \<open>chainLightning\<close> are the properties \<open>shoot\<close> adds to a bullet; an absent property
  reads as false. \<open>trail\<close> holds \<open>{x, y}\<close> objects, pairs here, newest first.
\<close>

record Bullet = entity +
  speed :: real
  speedX :: real
  color :: string
  splitShot :: bool
  game :: bool
  trail :: "(real \<times> real) list"
  guidedShot :: bool
  diamondShot :: bool
  chainLightning :: bool

text \<open>
  \<open>reset(x, y, speed, color, game = null)\<close>: the properties added by \<open>shoot\<close> are not
  touched.
\<close>

definition Bullet_reset :: "Bullet \<Rightarrow> real \<Rightarrow> real \<Rightarrow> real \<Rightarrow> string \<Rightarrow> bool \<Rightarrow> Bullet" where
  "Bullet_reset b px py s c g =
     b\<lparr>x := px, y := py, speed := s, speedX := 0, color := c,
       splitShot := False, game := g, trail := []\<rparr>"


text \<open>
  \<open>update()\<close>. The three calls of \<open>Math.random()\<close> are the argument \<open>(r, rx, ry)\<close>. The
  result is the bullet after the call and, when a trail particle is made, the arguments
  \<open>(x, y, vx, vy)\<close> of the \<open>particle.reset\<close> call on a particle taken from the pool.
\<close>

definition Bullet_update ::
  "Bullet \<Rightarrow> real \<times> real \<times> real \<Rightarrow> Bullet \<times> (real \<times> real \<times> real \<times> real) option" where
  "Bullet_update b rnd =
     (let (r, rx, ry) = rnd;
          t1 = (x b, y b) # trail b;
          t2 = (if length t1 > 5 then butlast t1 else t1);
          b1 = b\<lparr>trail := t2\<rparr>;
          b2 = b1\<lparr>y := y b1 + Bullet.speed b1\<rparr>;
          b3 = b2\<lparr>x := x b2 + speedX b2\<rparr>
      in (b3, if game b3 \<and> r < 0.3
              then Some (x b3, y b3, (rx - 0.5) * 2, (ry - 0.5) * 2)
              else None))"

text \<open>A sequence of \<open>update\<close> calls, and the positions the bullet had before each of them.\<close>

definition Bullet_updates :: "Bullet \<Rightarrow> (real \<times> real \<times> real) list \<Rightarrow> Bullet" where
  "Bullet_updates b rnds = foldl (\<lambda>b' rnd. fst (Bullet_update b' rnd)) b rnds"

fun visited :: "Bullet \<Rightarrow> (real \<times> real \<times> real) list \<Rightarrow> (real \<times> real) list" where
  "visited b [] = []"
| "visited b (rnd # rnds) = (x b, y b) # visited (fst (Bullet_update b rnd)) rnds"

section \<open>Alien (entities/alien.js)\<close>

text \<open>
  The fields the collision code reads. \<open>type\<close> is one of the strings \<open>normal\<close>,
  \<open>shielded\<close> and \<open>shooter\<close>; \<open>shieldStrength\<close> is read only on a shielded alien.
\<close>

record Alien = entity +
  row :: int
  type :: string
  shieldStrength :: int

section \<open>Power-ups (main.js, class Game)\<close>

text \<open>
  The kinds of power-up are the keys of \<open>GAME_CONFIG.powerUps\<close>. An entry of the
  configuration has a \<open>score\<close>, a \<open>duration\<close> in milliseconds when the kind is timed, and
  a \<open>type\<close> that is \<open>instant\<close>, \<open>permanent\<close> or absent.
\<close>

datatype powerUpType =
  Life | Bomb | Shield | RapidFire | QuadShot | SlowMotion | Multiplier | Laser
  | SplitShot | GuidedShot | TimeWarp | DiamondShot | Wingman | ChainLightning

record powerUpConfig =
  duration :: "int option"
  score :: real
  ctype :: "string option"

fun GAME_CONFIG_powerUps :: "powerUpType \<Rightarrow> powerUpConfig" where
  "GAME_CONFIG_powerUps Life = \<lparr>duration = None, score = 50, ctype = Some ''instant''\<rparr>"
| "GAME_CONFIG_powerUps Bomb = \<lparr>duration = None, score = 150, ctype = Some ''instant''\<rparr>"
| "GAME_CONFIG_powerUps Shield = \<lparr>duration = None, score = 75, ctype = Some ''permanent''\<rparr>"
| "GAME_CONFIG_powerUps RapidFire = \<lparr>duration = Some 5000, score = 100, ctype = None\<rparr>"
| "GAME_CONFIG_powerUps QuadShot = \<lparr>duration = Some 10000, score = 125, ctype = None\<rparr>"
| "GAME_CONFIG_powerUps SlowMotion = \<lparr>duration = Some 7000, score = 80, ctype = None\<rparr>"
| "GAME_CONFIG_powerUps Multiplier = \<lparr>duration = Some 15000, score = 90, ctype = None\<rparr>"
| "GAME_CONFIG_powerUps Laser = \<lparr>duration = Some 2500, score = 150, ctype = None\<rparr>"
| "GAME_CONFIG_powerUps SplitShot = \<lparr>duration = Some 8000, score = 125, ctype = None\<rparr>"
| "GAME_CONFIG_powerUps GuidedShot = \<lparr>duration = Some 6000, score = 100, ctype = None\<rparr>"
| "GAME_CONFIG_powerUps TimeWarp = \<lparr>duration = Some 4000, score = 120, ctype = None\<rparr>"
| "GAME_CONFIG_powerUps DiamondShot = \<lparr>duration = Some 5000, score = 110, ctype = None\<rparr>"
| "GAME_CONFIG_powerUps Wingman = \<lparr>duration = Some 8000, score = 120, ctype = None\<rparr>"
| "GAME_CONFIG_powerUps ChainLightning = \<lparr>duration = Some 7000, score = 130, ctype = None\<rparr>"

text \<open>
  \<open>expireTime\<close> is a time in milliseconds (\<open>Date.now()\<close>, an integer), \<open>Infinity\<close> for the
  shield, or \<open>NaN\<close>, the sum of a time and an absent duration. \<open>js_gt t e\<close> is the
  comparison \<open>t > e\<close>, false against \<open>Infinity\<close> and \<open>NaN\<close>.
\<close>

datatype jsnum = Num int | Infinity | NaN

fun js_gt :: "int \<Rightarrow> jsnum \<Rightarrow> bool" where
  "js_gt t (Num e) = (t > e)"
| "js_gt t Infinity = False"
| "js_gt t NaN = False"

fun js_plus :: "int \<Rightarrow> int option \<Rightarrow> jsnum" where
  "js_plus t (Some d) = Num (t + d)"
| "js_plus t None = NaN"

text \<open>
  One record of \<open>this.powerUps\<close>. Only the multiplier record has a \<open>value\<close> in the source.
\<close>

record powerUpState =
  active :: bool
  expireTime :: jsnum
  pvalue :: real

text \<open>A call to a method of the game that is not modelled further, with its arguments.\<close>

datatype call =
  createExplosion real real
  | createSplitBullets real real
  | createChainLightning real real
  | releaseBullet ref
  | playSound real real string
  | createSplashLabel powerUpType real real
  | updateUI

text \<open>
  The part of the game object that the power-up and collision code reads and writes.
  \<open>score\<close> and \<open>lives\<close> are \<open>this.state.score\<close> and \<open>this.state.lives\<close>; \<open>wingman_active\<close>
  is \<open>this.wingman.active\<close>; \<open>bomb_count\<close> and \<open>bomb_ready\<close> are the record
  \<open>this.powerUps.bomb\<close>, which has no \<open>active\<close> and no \<open>expireTime\<close>; \<open>powerUps\<close> holds the
  twelve other records of \<open>this.powerUps\<close> (its values at \<open>Life\<close> and \<open>Bomb\<close> are never
  used). \<open>calls\<close> lists, in order, the calls made to methods that are not modelled
  (particles, sound, display, bullet pool, timers).
\<close>

record Game =
  score :: real
  lives :: int
  player :: Player
  wingman_active :: bool
  aliens :: "Alien list"
  powerUps :: "powerUpType \<Rightarrow> powerUpState"
  bomb_count :: int
  bomb_ready :: bool
  spatialGrid :: "entity SpatialGrid"
  calls :: "call list"

text \<open>
  The keys of \<open>this.powerUps\<close> in the order \<open>Object.entries\<close> visits them, without
  \<open>bomb\<close>: on that record \<open>expireTime\<close> and \<open>active\<close> are undefined, so the loop body does
  nothing.
\<close>

definition powerUpKeys :: "powerUpType list" where
  "powerUpKeys = [Shield, RapidFire, QuadShot, SplitShot, SlowMotion, Multiplier,
                  Laser, GuidedShot, TimeWarp, DiamondShot, Wingman, ChainLightning]"

text \<open>\<open>expirationMap[key]\<close> of \<open>updatePowerUpTimers\<close>; \<open>slowMotion\<close> has no entry.\<close>

fun expirationEffect :: "powerUpType \<Rightarrow> Game \<Rightarrow> Game" where
  "expirationEffect Shield g = g\<lparr>player := (player g)\<lparr>shield := False\<rparr>\<rparr>"
| "expirationEffect RapidFire g = g\<lparr>player := (player g)\<lparr>rapidFire := False\<rparr>\<rparr>"
| "expirationEffect QuadShot g = g\<lparr>player := (player g)\<lparr>quadShot := False\<rparr>\<rparr>"
| "expirationEffect Multiplier g =
     g\<lparr>player := (player g)\<lparr>pointsMultiplier := 1\<rparr>,
       powerUps := (powerUps g)(Multiplier := (powerUps g Multiplier)\<lparr>pvalue := 1\<rparr>)\<rparr>"
| "expirationEffect Laser g = g\<lparr>player := (player g)\<lparr>laser := False\<rparr>\<rparr>"
| "expirationEffect SplitShot g = g\<lparr>player := (player g)\<lparr>Player.splitShot := False\<rparr>\<rparr>"
| "expirationEffect GuidedShot g = g\<lparr>player := (player g)\<lparr>Player.guidedShot := False\<rparr>\<rparr>"
| "expirationEffect TimeWarp g = g\<lparr>player := (player g)\<lparr>timeWarp := False\<rparr>\<rparr>"
| "expirationEffect DiamondShot g = g\<lparr>player := (player g)\<lparr>Player.diamondShot := False\<rparr>\<rparr>"
| "expirationEffect Wingman g = g\<lparr>wingman_active := False\<rparr>"
| "expirationEffect ChainLightning g =
     g\<lparr>player := (player g)\<lparr>Player.chainLightning := False\<rparr>\<rparr>"
| "expirationEffect k g = g"

text \<open>The body of the loop of \<open>updatePowerUpTimers\<close>, for one key.\<close>

definition expireOne :: "int \<Rightarrow> Game \<Rightarrow> powerUpType \<Rightarrow> Game" where
  "expireOne currentTime g key =
     (let powerUp = powerUps g key
      in if expireTime powerUp = Infinity then g
         else if active powerUp \<and> js_gt currentTime (expireTime powerUp)
              then expirationEffect key
                     (g\<lparr>powerUps := (powerUps g)(key := powerUp\<lparr>active := False\<rparr>)\<rparr>)
              else g)"

text \<open>\<open>updatePowerUpTimers()\<close>, with the value of \<open>Date.now()\<close> as argument.\<close>

definition updatePowerUpTimers :: "int \<Rightarrow> Game \<Rightarrow> Game" where
  "updatePowerUpTimers currentTime g = foldl (expireOne currentTime) g powerUpKeys"

definition handleInstantPowerUp :: "powerUpType \<Rightarrow> Game \<Rightarrow> Game" where
  "handleInstantPowerUp t g =
     (case t of
        Life \<Rightarrow> g\<lparr>lives := min (lives g + 1) 5,
                  calls := calls g @ [playSound 660 0.3 ''sine'']\<rparr>
      | Bomb \<Rightarrow> g\<lparr>bomb_count := bomb_count g + 1, bomb_ready := True,
                  calls := calls g @ [playSound 220 0.6 ''sawtooth'']\<rparr>
      | _ \<Rightarrow> g)"

definition handlePermanentPowerUp :: "powerUpType \<Rightarrow> powerUpConfig \<Rightarrow> Game \<Rightarrow> Game" where
  "handlePermanentPowerUp t config g =
     (case t of
        Shield \<Rightarrow>
          g\<lparr>powerUps := (powerUps g)
                (Shield := (powerUps g Shield)\<lparr>active := True, expireTime := Infinity\<rparr>),
            player := (player g)\<lparr>shield := True\<rparr>,
            calls := calls g @ [playSound 440 0.4 ''sine'']\<rparr>
      | _ \<Rightarrow> g)"

text \<open>
  \<open>effectMap\<close> of \<open>handleTimedPowerUp\<close>: the sound of each kind that has an entry,
  and the assignment to the player property (to \<open>this.wingman.active\<close> for the wingman,
  none for \<open>slowMotion\<close>, the value \<open>2\<close> for the multiplier).
\<close>

fun effectSound :: "powerUpType \<Rightarrow> call option" where
  "effectSound RapidFire = Some (playSound 880 0.3 ''triangle'')"
| "effectSound Shield = Some (playSound 440 0.4 ''sine'')"
| "effectSound QuadShot = Some (playSound 1100 0.3 ''square'')"
| "effectSound SlowMotion = Some (playSound 330 0.5 ''sawtooth'')"
| "effectSound Multiplier = Some (playSound 1320 0.3 ''sine'')"
| "effectSound Laser = Some (playSound 1760 0.3 ''sine'')"
| "effectSound SplitShot = Some (playSound 1320 0.3 ''triangle'')"
| "effectSound GuidedShot = Some (playSound 880 0.4 ''sine'')"
| "effectSound TimeWarp = Some (playSound 440 0.5 ''triangle'')"
| "effectSound DiamondShot = Some (playSound 1320 0.3 ''sine'')"
| "effectSound Wingman = Some (playSound 660 0.3 ''sawtooth'')"
| "effectSound ChainLightning = Some (playSound 1100 0.4 ''triangle'')"
| "effectSound k = None"

fun setPlayerProp :: "powerUpType \<Rightarrow> Game \<Rightarrow> Game" where
  "setPlayerProp RapidFire g = g\<lparr>player := (player g)\<lparr>rapidFire := True\<rparr>\<rparr>"
| "setPlayerProp Shield g = g\<lparr>player := (player g)\<lparr>shield := True\<rparr>\<rparr>"
| "setPlayerProp QuadShot g = g\<lparr>player := (player g)\<lparr>quadShot := True\<rparr>\<rparr>"
| "setPlayerProp Multiplier g = g\<lparr>player := (player g)\<lparr>pointsMultiplier := 2\<rparr>\<rparr>"
| "setPlayerProp Laser g = g\<lparr>player := (player g)\<lparr>laser := True\<rparr>\<rparr>"
| "setPlayerProp SplitShot g = g\<lparr>player := (player g)\<lparr>Player.splitShot := True\<rparr>\<rparr>"
| "setPlayerProp GuidedShot g = g\<lparr>player := (player g)\<lparr>Player.guidedShot := True\<rparr>\<rparr>"
| "setPlayerProp TimeWarp g = g\<lparr>player := (player g)\<lparr>timeWarp := True\<rparr>\<rparr>"
| "setPlayerProp DiamondShot g = g\<lparr>player := (player g)\<lparr>Player.diamondShot := True\<rparr>\<rparr>"
| "setPlayerProp Wingman g = g\<lparr>wingman_active := True\<rparr>"
| "setPlayerProp ChainLightning g =
     g\<lparr>player := (player g)\<lparr>Player.chainLightning := True\<rparr>\<rparr>"
| "setPlayerProp k g = g"

definition handleTimedPowerUp ::
  "powerUpType \<Rightarrow> powerUpConfig \<Rightarrow> int \<Rightarrow> Game \<Rightarrow> Game" where
  "handleTimedPowerUp t config currentTime g =
     (case effectSound t of
        None \<Rightarrow> g
      | Some sound \<Rightarrow>
          (let g1 = g\<lparr>powerUps := (powerUps g)
                       (t := (powerUps g t)\<lparr>active := True,
                               expireTime := js_plus currentTime (duration config)\<rparr>)\<rparr>;
               g2 = setPlayerProp t g1
           in g2\<lparr>calls := calls g2 @ [sound]\<rparr>))"

text \<open>\<open>applyPowerUp(type)\<close>, with the value of \<open>Date.now()\<close> as second argument.\<close>

definition applyPowerUp :: "powerUpType \<Rightarrow> int \<Rightarrow> Game \<Rightarrow> Game" where
  "applyPowerUp t currentTime g =
     (let config = GAME_CONFIG_powerUps t;
          g1 = g\<lparr>score := score g + powerUpConfig.score config\<rparr>;
          g2 = (if ctype config = Some ''instant'' then handleInstantPowerUp t g1
                else if ctype config = Some ''permanent''
                     then handlePermanentPowerUp t config g1
                     else handleTimedPowerUp t config currentTime g1)
      in g2\<lparr>calls := calls g2 @
               [createSplashLabel t (x (player g2) + width (player g2) / 2)
                                    (y (player g2) - 30),
                updateUI]\<rparr>)"

text \<open>A sequence of per-frame sweeps, one for each time of the list, in order.\<close>

definition sweeps :: "int list \<Rightarrow> Game \<Rightarrow> Game" where
  "sweeps ts g = foldl (\<lambda>g' t. updatePowerUpTimers t g') g ts"

section \<open>Collisions (main.js, class Game)\<close>

text \<open>\<open>collision(rect1, rect2)\<close>.\<close>

definition collision :: "'a entity_scheme \<Rightarrow> 'b entity_scheme \<Rightarrow> bool" where
  "collision rect1 rect2 =
     (x rect1 < x rect2 + width rect2 \<and>
      x rect1 + width rect1 > x rect2 \<and>
      y rect1 < y rect2 + height rect2 \<and>
      y rect1 + height rect1 > y rect2)"

text \<open>
  \<open>this.aliens.splice(this.aliens.indexOf(alien), 1)\<close>: the first element that is the
  object \<open>alien\<close> leaves the array.
\<close>

fun spliceAlien :: "ref \<Rightarrow> Alien list \<Rightarrow> Alien list" where
  "spliceAlien r [] = []"
| "spliceAlien r (a # as) = (if ident a = r then as else a # spliceAlien r as)"

text \<open>
  The body of \<open>if (this.aliens.includes(alien) && this.collision(bullet, alien))\<close> in
  \<open>checkCollisions\<close>, up to its \<open>break\<close>. \<open>alien.shieldStrength--\<close> changes the object that
  the array holds.
\<close>

definition hitAlien :: "Bullet \<Rightarrow> Alien \<Rightarrow> Game \<Rightarrow> Game" where
  "hitAlien bullet alien g =
     (let cx = x alien + width alien / 2; cy = y alien + height alien / 2
      in if type alien = ''shielded'' \<and> shieldStrength alien > 1
         then g\<lparr>aliens := map (\<lambda>a. if ident a = ident alien
                                      then a\<lparr>shieldStrength := shieldStrength a - 1\<rparr>
                                      else a) (aliens g),
                calls := calls g @ [releaseBullet (ident bullet), createExplosion cx cy,
                                    playSound 880 0.1 ''sine'']\<rparr>
         else
           (let special =
                  (if splitShot bullet
                   then [createSplitBullets (x bullet) (y bullet), releaseBullet (ident bullet)]
                   else if diamondShot bullet then []
                   else if chainLightning bullet
                   then [createChainLightning (x bullet) (y bullet),
                         releaseBullet (ident bullet)]
                   else [releaseBullet (ident bullet)]);
                baseScore0 = (4 - real_of_int (row alien)) * 10;
                baseScore = (if type alien = ''shielded'' then baseScore0 * 2
                             else if type alien = ''shooter'' then baseScore0 * 1.5
                             else baseScore0);
                multiplier = (if active (powerUps g Multiplier)
                              then pvalue (powerUps g Multiplier) else 1)
            in g\<lparr>aliens := spliceAlien (ident alien) (aliens g),
                 score := score g + baseScore * multiplier,
                 calls := calls g @ [createExplosion cx cy] @ special @
                          [playSound 1100 0.1 ''square'', updateUI]\<rparr>))"







text \<open>
  The state the constructor of \<open>Game\<close> leaves, for a given formation of aliens: the
  player at the bottom centre of the 800 by 600 canvas, every power-up record inactive
  with \<open>expireTime\<close> 0, and the grid \<open>new SpatialGrid(800, 600, 50)\<close>.
\<close>

definition gameGrid :: "entity SpatialGrid" where
  "gameGrid = \<lparr>cellSize = 50, cols = 16, rows = 12, grid = replicate 192 []\<rparr>"

definition Game_new :: "Alien list \<Rightarrow> Game" where
  "Game_new formation =
     \<lparr>score = 0, lives = 3, player = Player_new 0 400 550, wingman_active = False,
      aliens = formation,
      powerUps = (\<lambda>k. \<lparr>active = False, expireTime = Num 0, pvalue = 1\<rparr>),
      bomb_count = 0, bomb_ready = False, spatialGrid = gameGrid, calls = []\<rparr>"




section \<open>Pool properties\<close>

lemma prepopulate_shape:
  "pool (prepopulate k p) = pool p @ [nextRef p ..< nextRef p + k] \<and>
   ObjectPool.active (prepopulate k p) = ObjectPool.active p \<and>
   nextRef (prepopulate k p) = nextRef p + k"
proof (induction k arbitrary: p)
  case 0
  show ?case by simp
next
  case (Suc k)
  have "[nextRef p ..< nextRef p + Suc k] = nextRef p # [Suc (nextRef p) ..< Suc (nextRef p) + k]"
    by (simp add: upt_conv_Cons)
  then show ?case using Suc [of "p\<lparr>pool := pool p @ [nextRef p],
          heap := (heap p)(nextRef p \<mapsto> createFn p (nextRef p)),
          nextRef := Suc (nextRef p)\<rparr>"]
    by simp
qed

lemma pool_ok_new: "pool_ok (ObjectPool_new c r n)"
  by (simp add: pool_ok_def ObjectPool_new_def prepopulate_shape)

lemma pool_ok_get: "pool_ok p \<Longrightarrow> pool_ok (snd (ObjectPool_get p))"
proof (cases "pool p = []")
  case True
  assume ok: "pool_ok p"
  from ok True have "nextRef p \<notin> set (ObjectPool.active p)"
    by (auto simp: pool_ok_def)
  with ok True show ?thesis
    by (auto simp: pool_ok_def ObjectPool_get_def Let_def set_add_def atLeast0_lessThan_Suc)
next
  case False
  assume ok: "pool_ok p"
  from False obtain ys z where ys: "pool p = ys @ [z]"
    by (metis rev_exhaust)
  with ok show ?thesis
    by (auto simp: pool_ok_def ObjectPool_get_def Let_def set_add_def)
qed

lemma pool_ok_release: "pool_ok p \<Longrightarrow> pool_ok (ObjectPool_release p obj)"
  by (auto simp: pool_ok_def ObjectPool_release_def set_has_def set_delete_def
        distinct_removeAll)

lemma pool_ok_step: "pool_ok p \<Longrightarrow> pool_ok (pool_step p c)"
  by (cases c) (simp_all add: pool_ok_get pool_ok_release)

lemma pool_ok_run: "pool_ok p \<Longrightarrow> pool_ok (pool_run p cs)"
  unfolding pool_run_def
  by (induction cs arbitrary: p) (simp_all add: pool_ok_step)

text \<open>
  C1. After any finite sequence of \<open>get\<close> and \<open>release\<close> calls on a freshly constructed
  pool, the number of active objects plus the number of free objects is
  \<open>stats.totalCreated\<close>, and every allocated object is in exactly one of the free array
  and the active set: neither holds an object twice, they share no object, and together
  they hold all the objects allocated so far.
\<close>

theorem pool_conservation:
  "length (ObjectPool.active (pool_run (ObjectPool_new c r n) cs))
     + length (pool (pool_run (ObjectPool_new c r n) cs))
     = totalCreated (stats (pool_run (ObjectPool_new c r n) cs)) \<and>
   distinct (pool (pool_run (ObjectPool_new c r n) cs)) \<and>
   distinct (ObjectPool.active (pool_run (ObjectPool_new c r n) cs)) \<and>
   set (pool (pool_run (ObjectPool_new c r n) cs))
     \<inter> set (ObjectPool.active (pool_run (ObjectPool_new c r n) cs)) = {} \<and>
   set (pool (pool_run (ObjectPool_new c r n) cs))
     \<union> set (ObjectPool.active (pool_run (ObjectPool_new c r n) cs))
     = {0 ..< nextRef (pool_run (ObjectPool_new c r n) cs)} \<and>
   card (set (pool (pool_run (ObjectPool_new c r n) cs))
     \<union> set (ObjectPool.active (pool_run (ObjectPool_new c r n) cs)))
     = totalCreated (stats (pool_run (ObjectPool_new c r n) cs))"
proof -
  let ?p = "pool_run (ObjectPool_new c r n) cs"
  have ok: "pool_ok ?p"
    by (rule pool_ok_run [OF pool_ok_new])
  then have d: "distinct (pool ?p @ ObjectPool.active ?p)"
    and u: "set (pool ?p) \<union> set (ObjectPool.active ?p) = {0 ..< nextRef ?p}"
    and t: "totalCreated (stats ?p) = nextRef ?p"
    by (simp_all add: pool_ok_def)
  from d have "card (set (pool ?p @ ObjectPool.active ?p)) = length (pool ?p) + length (ObjectPool.active ?p)"
    by (simp only: distinct_card length_append)
  with u have len: "length (pool ?p) + length (ObjectPool.active ?p) = nextRef ?p"
    by simp
  from d u t len show ?thesis
    by auto
qed


text \<open>
  C2. \<open>release\<close> of an object that is not in the active set returns the pool as it was:
  free array, active set, counters and objects. In particular a second \<open>release\<close> of the
  same object, right after the first, changes nothing.
\<close>

theorem release_inactive_unchanged:
  "(\<not> set_has obj (ObjectPool.active p) \<longrightarrow> ObjectPool_release p obj = p) \<and>
   ObjectPool_release (ObjectPool_release p obj) obj = ObjectPool_release p obj"
  by (simp add: ObjectPool_release_def set_has_def set_delete_def)

theorem release_inactive_unchanged_witness:
  "\<not> set_has 7 (ObjectPool.active (snd (ObjectPool_get (ObjectPool_new (\<lambda>k. k) (\<lambda>v. 0) 2)))) \<and>
   ObjectPool_release (snd (ObjectPool_get (ObjectPool_new (\<lambda>k. k) (\<lambda>v. 0) 2))) 7
     = snd (ObjectPool_get (ObjectPool_new (\<lambda>k. k) (\<lambda>v. 0) 2)) \<and>
   set_has 1 (ObjectPool.active (snd (ObjectPool_get (ObjectPool_new (\<lambda>k. k) (\<lambda>v. 0) 2)))) \<and>
   ObjectPool_release
     (ObjectPool_release (snd (ObjectPool_get (ObjectPool_new (\<lambda>k. k) (\<lambda>v. 0) 2))) 1) 1
     = ObjectPool_release (snd (ObjectPool_get (ObjectPool_new (\<lambda>k. k) (\<lambda>v. 0) 2))) 1"
proof -
  let ?p = "snd (ObjectPool_get (ObjectPool_new (\<lambda>k::nat. k) (\<lambda>v. 0) 2))"
  have a: "ObjectPool.active ?p = [1]"
    by (simp add: ObjectPool_get_def ObjectPool_new_def set_add_def numeral_2_eq_2)
  have n: "\<not> set_has 7 (ObjectPool.active ?p)" and h: "set_has 1 (ObjectPool.active ?p)"
    by (simp_all add: a set_has_def)
  from n h release_inactive_unchanged [of 7 ?p] release_inactive_unchanged [of 1 ?p]
  show ?thesis by simp
qed

text \<open>
  C8. \<open>get\<close> is a total function: on every pool it returns an object and a pool. When the
  free array is non-empty the object is its last element, which leaves the free array,
  and the lifetime counter and the heap stay as they were. When the free array is empty
  the object is the one \<open>createFn\<close> has just made, the lifetime counter goes up by one,
  and on a pool that satisfies the invariant this object was in neither collection
  before. In both cases the returned object is in the active set afterwards.
\<close>

theorem get_returns_active_slot:
  "(pool p \<noteq> [] \<longrightarrow>
      fst (ObjectPool_get p) = last (pool p) \<and>
      fst (ObjectPool_get p) \<in> set (pool p) \<and>
      pool (snd (ObjectPool_get p)) = butlast (pool p) \<and>
      heap (snd (ObjectPool_get p)) = heap p \<and>
      totalCreated (stats (snd (ObjectPool_get p))) = totalCreated (stats p)) \<and>
   (pool p = [] \<longrightarrow>
      fst (ObjectPool_get p) = nextRef p \<and>
      heap (snd (ObjectPool_get p)) (nextRef p) = Some (createFn p (nextRef p)) \<and>
      pool (snd (ObjectPool_get p)) = [] \<and>
      totalCreated (stats (snd (ObjectPool_get p))) = totalCreated (stats p) + 1) \<and>
   (pool p = [] \<and> pool_ok p \<longrightarrow> fst (ObjectPool_get p) \<notin> set (ObjectPool.active p)) \<and>
   set_has (fst (ObjectPool_get p)) (ObjectPool.active (snd (ObjectPool_get p)))"
proof -
  have fresh: "pool_ok p \<Longrightarrow> nextRef p \<notin> set (ObjectPool.active p)"
    by (auto simp: pool_ok_def)
  then show ?thesis
    by (auto simp: ObjectPool_get_def Let_def set_add_def set_has_def)
qed

theorem get_returns_active_slot_witness:
  "pool (ObjectPool_new (\<lambda>k. k) (\<lambda>v. 0) 2) \<noteq> [] \<and>
   fst (ObjectPool_get (ObjectPool_new (\<lambda>k. k) (\<lambda>v. 0) 2)) = 1 \<and>
   pool (ObjectPool_new (\<lambda>k. k) (\<lambda>v. 0) 0) = [] \<and>
   pool_ok (ObjectPool_new (\<lambda>k. k) (\<lambda>v. 0) 0) \<and>
   fst (ObjectPool_get (ObjectPool_new (\<lambda>k. k) (\<lambda>v. 0) 0)) = 0 \<and>
   totalCreated (stats (snd (ObjectPool_get (ObjectPool_new (\<lambda>k. k) (\<lambda>v. 0) 0)))) = 1"
proof -
  let ?p = "ObjectPool_new (\<lambda>k::nat. k) (\<lambda>v. 0) 2"
  let ?q = "ObjectPool_new (\<lambda>k::nat. k) (\<lambda>v. 0) 0"
  have p: "pool ?p = [0, 1]" and q: "pool ?q = []" "nextRef ?q = 0"
    "totalCreated (stats ?q) = 0"
    by (simp_all add: ObjectPool_new_def numeral_2_eq_2)
  have ok: "pool_ok ?q"
    by (rule pool_ok_new)
  from p q ok get_returns_active_slot [of ?p] get_returns_active_slot [of ?q]
  show ?thesis by simp
qed

section \<open>Spatial grid properties\<close>

lemma insert_keeps_shape:
  "cellSize (SpatialGrid_insert g e) = cellSize g \<and>
   cols (SpatialGrid_insert g e) = cols g \<and>
   rows (SpatialGrid_insert g e) = rows g \<and>
   length (grid (SpatialGrid_insert g e)) = length (grid g)"
  by (simp add: SpatialGrid_insert_def Let_def)

lemma insert_keeps_members:
  "v \<in> set (grid g ! i) \<Longrightarrow> v \<in> set (grid (SpatialGrid_insert g e) ! i)"
  by (cases "i < length (grid g)")
     (auto simp: SpatialGrid_insert_def Let_def nth_list_update)

lemma insert_lands:
  "0 \<le> getCellIndex g (x e) (y e) \<Longrightarrow>
   getCellIndex g (x e) (y e) < int (length (grid g)) \<Longrightarrow>
   e \<in> set (grid (SpatialGrid_insert g e) ! nat (getCellIndex g (x e) (y e)))"
  by (simp add: SpatialGrid_insert_def Let_def)

lemma insertAll_keeps_shape:
  "cellSize (insertAll g es) = cellSize g \<and>
   cols (insertAll g es) = cols g \<and>
   rows (insertAll g es) = rows g \<and>
   length (grid (insertAll g es)) = length (grid g)"
  unfolding insertAll_def
  by (induction es arbitrary: g) (simp_all add: insert_keeps_shape)

lemma insertAll_keeps_members:
  "v \<in> set (grid g ! i) \<Longrightarrow> v \<in> set (grid (insertAll g es) ! i)"
  unfolding insertAll_def
  by (induction es arbitrary: g) (simp_all add: insert_keeps_members)

lemma insertAll_lands:
  "e \<in> set es \<Longrightarrow>
   0 \<le> getCellIndex g (x e) (y e) \<Longrightarrow>
   getCellIndex g (x e) (y e) < int (length (grid g)) \<Longrightarrow>
   e \<in> set (grid (insertAll g es) ! nat (getCellIndex g (x e) (y e)))"
proof (induction es arbitrary: g)
  case Nil
  then show ?case by simp
next
  case (Cons a es)
  have shape: "getCellIndex (SpatialGrid_insert g a) (x e) (y e) = getCellIndex g (x e) (y e)"
    "length (grid (SpatialGrid_insert g a)) = length (grid g)"
    by (simp_all add: getCellIndex_def insert_keeps_shape)
  show ?case
  proof (cases "a = e")
    case True
    have "e \<in> set (grid (SpatialGrid_insert g e) ! nat (getCellIndex g (x e) (y e)))"
      using Cons.prems(2,3) by (rule insert_lands)
    then have "e \<in> set (grid (insertAll (SpatialGrid_insert g e) es)
                ! nat (getCellIndex g (x e) (y e)))"
      by (rule insertAll_keeps_members)
    with True show ?thesis by (simp add: insertAll_def)
  next
    case False
    with Cons.prems(1) have "e \<in> set es" by simp
    from Cons.IH [OF this, of "SpatialGrid_insert g a"] Cons.prems(2,3) shape
    show ?thesis by (simp add: insertAll_def)
  qed
qed

lemma floor_within_one:
  fixes a b c :: real
  assumes "0 < c" and "\<bar>a - b\<bar> \<le> c"
  shows "\<lfloor>b / c\<rfloor> - \<lfloor>a / c\<rfloor> \<in> {-1, 0, 1}"
proof -
  from assms have "a / c \<le> b / c + 1" and "b / c \<le> a / c + 1"
    by (simp_all add: field_simps abs_le_iff)
  then have "\<lfloor>a / c\<rfloor> \<le> \<lfloor>b / c + 1\<rfloor>" and "\<lfloor>b / c\<rfloor> \<le> \<lfloor>a / c + 1\<rfloor>"
    by (simp_all only: floor_mono)
  then have "\<lfloor>a / c\<rfloor> \<le> \<lfloor>b / c\<rfloor> + 1" and "\<lfloor>b / c\<rfloor> \<le> \<lfloor>a / c\<rfloor> + 1"
    by simp_all
  then show ?thesis by auto
qed

lemma nearby_covers_neighbours:
  assumes dy: "dy \<in> {-1, 0, 1}" and dx: "dx \<in> {-1, 0, 1}"
    and v: "v \<in> set (nearbyCell g \<lfloor>px / cellSize g\<rfloor> \<lfloor>py / cellSize g\<rfloor> dy dx)"
  shows "v \<in> set (getNearbyEntities g px py)"
  using assms by (auto simp: getNearbyEntities_def Let_def)

lemma cell_in_extent:
  fixes p w c :: real
  assumes "0 < c" and "0 \<le> p" and "p < w"
  shows "0 \<le> \<lfloor>p / c\<rfloor> \<and> \<lfloor>p / c\<rfloor> < \<lceil>w / c\<rceil>"
proof -
  from assms have "0 \<le> p / c" by simp
  then have lo: "0 \<le> \<lfloor>p / c\<rfloor>" by simp
  from assms have "p / c < w / c" by (simp add: divide_strict_right_mono)
  also have "w / c \<le> of_int \<lceil>w / c\<rceil>" by (rule le_of_int_ceiling)
  finally have "\<lfloor>p / c\<rfloor> < \<lceil>w / c\<rceil>" by (simp add: floor_less_iff)
  with lo show ?thesis by simp
qed

lemma linear_index_in_range:
  fixes col row cs rs :: int
  assumes "0 \<le> col" "col < cs" "0 \<le> row" "row < rs"
  shows "0 \<le> row * cs + col \<and> row * cs + col < cs * rs"
proof -
  from assms have "row + 1 \<le> rs" and "0 \<le> cs" by simp_all
  then have "(row + 1) * cs \<le> rs * cs" by (rule mult_right_mono)
  then have "row * cs + cs \<le> cs * rs" by (simp add: algebra_simps)
  moreover from assms have "0 \<le> row * cs" by simp
  ultimately show ?thesis using assms by linarith
qed

text \<open>
  C4. On a grid made by the constructor with a positive cell size, an entity that was
  inserted at a position inside the configured extent is among the entities that
  \<open>getNearbyEntities\<close> returns for every query point whose horizontal and whose vertical
  distance from that position is at most one cell size (the position itself included),
  whatever else was inserted before or after it.
\<close>

theorem nearby_finds_inserted:
  assumes new: "SpatialGrid_new w h c = Inr g"
    and c: "0 < c"
    and ins: "e \<in> set es"
    and ex: "0 \<le> x e" "x e < w"
    and ey: "0 \<le> y e" "y e < h"
    and qx: "\<bar>qx - x e\<bar> \<le> c"
    and qy: "\<bar>qy - y e\<bar> \<le> c"
  shows "e \<in> set (getNearbyEntities (insertAll g es) qx qy)"
proof -
  let ?col = "\<lfloor>x e / c\<rfloor>" and ?row = "\<lfloor>y e / c\<rfloor>"
  let ?g = "insertAll g es"
  from new have g: "cellSize g = c" "cols g = \<lceil>w / c\<rceil>" "rows g = \<lceil>h / c\<rceil>"
    and len: "int (length (grid g)) = \<lceil>w / c\<rceil> * \<lceil>h / c\<rceil>"
    by (auto simp: SpatialGrid_new_def Let_def split: if_splits)
  have colr: "0 \<le> ?col \<and> ?col < \<lceil>w / c\<rceil>" using c ex by (rule cell_in_extent)
  have rowr: "0 \<le> ?row \<and> ?row < \<lceil>h / c\<rceil>" using c ey by (rule cell_in_extent)
  have idx: "getCellIndex g (x e) (y e) = ?row * cols g + ?col"
    by (simp add: getCellIndex_def g)
  have range: "0 \<le> ?row * cols g + ?col \<and> ?row * cols g + ?col < int (length (grid g))"
    using linear_index_in_range [of ?col "\<lceil>w / c\<rceil>" ?row "\<lceil>h / c\<rceil>"] colr rowr
    by (simp add: g len)
  have held: "e \<in> set (grid ?g ! nat (?row * cols g + ?col))"
    using insertAll_lands [OF ins, of g] range by (simp add: idx)
  have shape: "cellSize ?g = c" "cols ?g = cols g" "length (grid ?g) = length (grid g)"
    by (simp_all add: insertAll_keeps_shape g)
  define dx where "dx = ?col - \<lfloor>qx / c\<rfloor>"
  define dy where "dy = ?row - \<lfloor>qy / c\<rfloor>"
  have dx: "dx \<in> {-1, 0, 1}" unfolding dx_def using c qx by (rule floor_within_one)
  have dy: "dy \<in> {-1, 0, 1}" unfolding dy_def using c qy by (rule floor_within_one)
  have "nearbyCell ?g \<lfloor>qx / cellSize ?g\<rfloor> \<lfloor>qy / cellSize ?g\<rfloor> dy dx
          = grid ?g ! nat (?row * cols g + ?col)"
    using range by (simp add: nearbyCell_def Let_def shape dx_def dy_def)
  with held have "e \<in> set (nearbyCell ?g \<lfloor>qx / cellSize ?g\<rfloor> \<lfloor>qy / cellSize ?g\<rfloor> dy dx)"
    by simp
  with dy dx show ?thesis by (rule nearby_covers_neighbours)
qed

theorem nearby_finds_inserted_witness:
  "(SpatialGrid_new 800 600 50 :: js_error + entity SpatialGrid) = Inr gameGrid \<and>
   (0 :: real) < 50 \<and>
   0 \<le> x \<lparr>ident = 0, x = 120, y = 80, width = 40, height = 30\<rparr> \<and>
   x \<lparr>ident = 0, x = 120, y = 80, width = 40, height = 30\<rparr> < 800 \<and>
   0 \<le> y \<lparr>ident = 0, x = 120, y = 80, width = 40, height = 30\<rparr> \<and>
   y \<lparr>ident = 0, x = 120, y = 80, width = 40, height = 30\<rparr> < 600 \<and>
   \<bar>100 - x \<lparr>ident = 0, x = 120, y = 80, width = 40, height = 30\<rparr>\<bar> \<le> 50 \<and>
   \<bar>130 - y \<lparr>ident = 0, x = 120, y = 80, width = 40, height = 30\<rparr>\<bar> \<le> 50 \<and>
   \<lparr>ident = 0, x = 120, y = 80, width = 40, height = 30\<rparr>
     \<in> set (getNearbyEntities
         (insertAll gameGrid
            [\<lparr>ident = 1, x = 300, y = 80, width = 40, height = 30\<rparr>,
             \<lparr>ident = 0, x = 120, y = 80, width = 40, height = 30\<rparr>]) 100 130)"
proof -
  let ?e = "\<lparr>ident = 0, x = 120, y = 80, width = 40, height = 30\<rparr>"
  let ?es = "[\<lparr>ident = 1, x = 300, y = 80, width = 40, height = 30\<rparr>, ?e]"
  have new: "(SpatialGrid_new 800 600 50 :: js_error + entity SpatialGrid) = Inr gameGrid"
    by (simp add: SpatialGrid_new_def gameGrid_def)
  have "?e \<in> set (getNearbyEntities (insertAll gameGrid ?es) 100 130)"
    by (rule nearby_finds_inserted [OF new, of ?e ?es 100 130]) simp_all
  with new show ?thesis by simp
qed

text \<open>
  C3. The guard of \<open>insert\<close> tests the linear index \<open>row * cols + col\<close>, not the column
  and the row. On the grid of the game (800 by 600, cells of 50, hence 16 columns) an
  entity at \<open>x = -10\<close>, \<open>y = 100\<close> lies left of the extent: its column is \<open>-1\<close> and its
  row is \<open>2\<close>, its linear index \<open>2 * 16 - 1 = 31\<close> passes the guard, and the entity is
  pushed into bucket 31, the last cell of row 1. In the same way an entity at \<open>x = 810\<close>,
  \<open>y = 100\<close>, right of the extent, has column \<open>16\<close> and lands in bucket 48, the first
  cell of row 3. The grid is not left unchanged.
\<close>

theorem insert_beside_extent_is_stored:
  "(SpatialGrid_new 800 600 50 :: js_error + entity SpatialGrid) = Inr gameGrid \<and>
   x \<lparr>ident = 0, x = - 10, y = 100, width = 4, height = 10\<rparr> < 0 \<and>
   grid (SpatialGrid_insert gameGrid \<lparr>ident = 0, x = - 10, y = 100, width = 4, height = 10\<rparr>)
       ! 31
     = [\<lparr>ident = 0, x = - 10, y = 100, width = 4, height = 10\<rparr>] \<and>
   SpatialGrid_insert gameGrid \<lparr>ident = 0, x = - 10, y = 100, width = 4, height = 10\<rparr>
     \<noteq> gameGrid \<and>
   800 < x \<lparr>ident = 0, x = 810, y = 100, width = 4, height = 10\<rparr> \<and>
   grid (SpatialGrid_insert gameGrid \<lparr>ident = 0, x = 810, y = 100, width = 4, height = 10\<rparr>)
       ! 48
     = [\<lparr>ident = 0, x = 810, y = 100, width = 4, height = 10\<rparr>] \<and>
   SpatialGrid_insert gameGrid \<lparr>ident = 0, x = 810, y = 100, width = 4, height = 10\<rparr>
     \<noteq> gameGrid"
proof -
  let ?l = "\<lparr>ident = 0, x = - 10, y = 100, width = 4, height = 10\<rparr>"
  let ?r = "\<lparr>ident = 0, x = 810, y = 100, width = 4, height = 10\<rparr>"
  have new: "(SpatialGrid_new 800 600 50 :: js_error + entity SpatialGrid) = Inr gameGrid"
    by (simp add: SpatialGrid_new_def gameGrid_def)
  have l: "grid (SpatialGrid_insert gameGrid ?l) ! 31 = [?l]"
    by (simp add: SpatialGrid_insert_def getCellIndex_def gameGrid_def)
  have r: "grid (SpatialGrid_insert gameGrid ?r) ! 48 = [?r]"
    by (simp add: SpatialGrid_insert_def getCellIndex_def gameGrid_def)
  have e: "grid gameGrid ! 31 = []" "grid gameGrid ! 48 = []"
    by (simp_all add: gameGrid_def)
  from l e have nl: "SpatialGrid_insert gameGrid ?l \<noteq> gameGrid"
    by (metis list.distinct(1))
  from r e have nr: "SpatialGrid_insert gameGrid ?r \<noteq> gameGrid"
    by (metis list.distinct(1))
  from new l r nl nr show ?thesis by simp
qed

section \<open>Player properties\<close>

lemma keyboardControl_width: "width (keyboardControl p keys cw) = width p"
  by (simp add: keyboardControl_def Let_def)

lemma Player_update_x:
  "\<exists>v. x (Player_update p keys cw m u) = max 0 (min (cw - width p) v)"
proof (cases m)
  case None
  show ?thesis
    unfolding Player_update_def Let_def None
    by (simp add: keyboardControl_width) blast
next
  case (Some mx)
  show ?thesis
    unfolding Player_update_def Let_def Some
    by (cases u) (simp_all add: keyboardControl_width, blast+)
qed

text \<open>
  C9. After \<open>update\<close>, whatever the keys, the mouse position and the mouse-control flag
  are, the player's \<open>x\<close> lies between \<open>0\<close> and \<open>canvasWidth - width\<close>. The interval is
  non-empty exactly when the canvas is at least as wide as the player, which is the
  condition of the upper bound; the lower bound \<open>0\<close> holds on any canvas.
\<close>

theorem player_stays_in_field:
  "0 \<le> x (Player_update p keys canvasWidth mouseX useMouseControl) \<and>
   (width p \<le> canvasWidth \<longrightarrow>
      x (Player_update p keys canvasWidth mouseX useMouseControl) \<le> canvasWidth - width p)"
proof -
  obtain v where "x (Player_update p keys canvasWidth mouseX useMouseControl)
      = max 0 (min (canvasWidth - width p) v)"
    using Player_update_x by blast
  then show ?thesis by auto
qed

theorem player_stays_in_field_witness:
  "width (Player_new 0 400 550) \<le> 800 \<and>
   0 \<le> x (Player_update (Player_new 0 400 550) {''ArrowRight''} 800 (Some 2000) True) \<and>
   x (Player_update (Player_new 0 400 550) {''ArrowRight''} 800 (Some 2000) True)
     \<le> 800 - width (Player_new 0 400 550)"
proof -
  have w: "width (Player_new 0 400 550) \<le> 800"
    by (simp add: Player_new_def)
  with player_stays_in_field [of "Player_new 0 400 550" "{''ArrowRight''}" 800 "Some 2000" True]
  show ?thesis by simp
qed

section \<open>Bullet properties\<close>

lemma take_append_take:
  "take n (xs @ take n ys) = take n (xs @ ys)"
  by (simp add: min_def)

lemma update_trail:
  "length (trail b) \<le> 5 \<Longrightarrow>
   trail (fst (Bullet_update b rnd)) = take 5 ((x b, y b) # trail b)"
  by (cases "length (trail b) = 5")
     (auto simp: Bullet_update_def Let_def butlast_conv_take split: prod.split)

lemma updates_trail:
  "length (trail b) \<le> 5 \<Longrightarrow>
   trail (Bullet_updates b rnds) = take 5 (rev (visited b rnds) @ trail b)"
proof (induction rnds arbitrary: b)
  case Nil
  then show ?case by (simp add: Bullet_updates_def)
next
  case (Cons rnd rnds)
  let ?b = "fst (Bullet_update b rnd)"
  have t: "trail ?b = take 5 ((x b, y b) # trail b)"
    using Cons.prems by (rule update_trail)
  then have "length (trail ?b) \<le> 5" by simp
  then have "trail (Bullet_updates ?b rnds) = take 5 (rev (visited ?b rnds) @ trail ?b)"
    by (rule Cons.IH)
  also have "\<dots> = take 5 (rev (visited ?b rnds) @ (x b, y b) # trail b)"
    unfolding t by (rule take_append_take)
  finally show ?case by (simp add: Bullet_updates_def)
qed

lemma visited_after_reset:
  "speedX b = 0 \<Longrightarrow>
   visited b rnds = map (\<lambda>k. (x b, y b + real k * Bullet.speed b)) [0 ..< length rnds]"
proof (induction rnds arbitrary: b)
  case Nil
  show ?case by simp
next
  case (Cons rnd rnds)
  let ?b = "fst (Bullet_update b rnd)"
  have nb: "x ?b = x b" "y ?b = y b + Bullet.speed b" "Bullet.speed ?b = Bullet.speed b"
    "speedX ?b = 0"
    using Cons.prems by (simp_all add: Bullet_update_def Let_def split: prod.split)
  have "visited ?b rnds
          = map (\<lambda>k. (x ?b, y ?b + real k * Bullet.speed ?b)) [0 ..< length rnds]"
    using nb(4) by (rule Cons.IH)
  also have "\<dots> = map (\<lambda>k. (x b, y b + real (Suc k) * Bullet.speed b)) [0 ..< length rnds]"
    by (simp add: nb algebra_simps)
  also have "\<dots> = map ((\<lambda>k. (x b, y b + real k * Bullet.speed b)) \<circ> Suc) [0 ..< length rnds]"
    by (simp add: comp_def)
  finally have step: "visited ?b rnds
          = map ((\<lambda>k. (x b, y b + real k * Bullet.speed b)) \<circ> Suc) [0 ..< length rnds]" .
  have "[0 ..< length (rnd # rnds)] = 0 # map Suc [0 ..< length rnds]"
    by (simp add: upt_conv_Cons map_Suc_upt del: upt_Suc)
  then have "map (\<lambda>k. (x b, y b + real k * Bullet.speed b)) [0 ..< length (rnd # rnds)]
      = (x b, y b) # map ((\<lambda>k. (x b, y b + real k * Bullet.speed b)) \<circ> Suc) [0 ..< length rnds]"
    by (simp only: list.map map_map) simp
  with step show ?case by (simp only: visited.simps)
qed

text \<open>
  C10. After \<open>reset\<close> and any number of \<open>update\<close> calls, the trail has at most five
  entries, and they are the positions the bullet had before the most recent calls, the
  latest first: the first five of the reversed list of the positions held before each
  call. Since \<open>reset\<close> sets \<open>speedX\<close> to \<open>0\<close>, the position before the call number \<open>k\<close>
  (counted from \<open>0\<close>) is \<open>(x, y + k * speed)\<close>.
\<close>

theorem trail_recent_positions:
  "length (trail (Bullet_updates (Bullet_reset b px py s c g) rnds)) \<le> 5 \<and>
   trail (Bullet_updates (Bullet_reset b px py s c g) rnds)
     = take 5 (rev (visited (Bullet_reset b px py s c g) rnds)) \<and>
   trail (Bullet_updates (Bullet_reset b px py s c g) rnds)
     = take 5 (rev (map (\<lambda>k. (px, py + real k * s)) [0 ..< length rnds]))"
proof -
  let ?b = "Bullet_reset b px py s c g"
  have r: "trail ?b = []" "speedX ?b = 0" "x ?b = px" "y ?b = py" "Bullet.speed ?b = s"
    by (simp_all add: Bullet_reset_def)
  have t: "trail (Bullet_updates ?b rnds) = take 5 (rev (visited ?b rnds))"
    using updates_trail [of ?b rnds] r(1) by simp
  have v: "visited ?b rnds = map (\<lambda>k. (px, py + real k * s)) [0 ..< length rnds]"
    using visited_after_reset [OF r(2), of rnds] by (simp add: r)
  from t v show ?thesis by simp
qed

section \<open>Power-up properties\<close>

lemma expirationEffect_records:
  "active (powerUps (expirationEffect k' g) k) = active (powerUps g k) \<and>
   expireTime (powerUps (expirationEffect k' g) k) = expireTime (powerUps g k)"
  by (cases k') simp_all

lemma expireOne_records:
  "active (powerUps (expireOne t g k') k)
     = (active (powerUps g k) \<and>
        \<not> (k = k' \<and> expireTime (powerUps g k) \<noteq> Infinity \<and> js_gt t (expireTime (powerUps g k)))) \<and>
   expireTime (powerUps (expireOne t g k') k) = expireTime (powerUps g k)"
  by (auto simp: expireOne_def Let_def expirationEffect_records)

lemma foldl_expireOne_records:
  "distinct ks \<Longrightarrow>
   active (powerUps (foldl (expireOne t) g ks) k)
     = (active (powerUps g k) \<and>
        \<not> (k \<in> set ks \<and> expireTime (powerUps g k) \<noteq> Infinity \<and>
           js_gt t (expireTime (powerUps g k)))) \<and>
   expireTime (powerUps (foldl (expireOne t) g ks) k) = expireTime (powerUps g k)"
proof (induction ks arbitrary: g)
  case Nil
  show ?case by simp
next
  case (Cons a ks)
  from Cons.prems have d: "distinct ks" and a: "a \<notin> set ks" by simp_all
  show ?case
    using Cons.IH [OF d, of "expireOne t g a"] a
    by (auto simp: expireOne_records)
qed

lemma sweep_records:
  "active (powerUps (updatePowerUpTimers t g) k)
     = (active (powerUps g k) \<and>
        \<not> (k \<in> set powerUpKeys \<and> expireTime (powerUps g k) \<noteq> Infinity \<and>
           js_gt t (expireTime (powerUps g k)))) \<and>
   expireTime (powerUps (updatePowerUpTimers t g) k) = expireTime (powerUps g k)"
proof -
  have "distinct powerUpKeys" by (simp add: powerUpKeys_def)
  then show ?thesis unfolding updatePowerUpTimers_def by (rule foldl_expireOne_records)
qed

lemma sweeps_expireTime:
  "expireTime (powerUps (sweeps ts g) k) = expireTime (powerUps g k)"
  unfolding sweeps_def
  by (induction ts arbitrary: g) (simp_all add: sweep_records)

lemma sweeps_keep_active:
  "active (powerUps g k) \<Longrightarrow> expireTime (powerUps g k) = Num e \<Longrightarrow>
   \<forall>t \<in> set ts. t \<le> e \<Longrightarrow> active (powerUps (sweeps ts g) k)"
proof (induction ts arbitrary: g)
  case Nil
  then show ?case by (simp add: sweeps_def)
next
  case (Cons t ts)
  let ?g = "updatePowerUpTimers t g"
  from Cons.prems have "active (powerUps ?g k)" and "expireTime (powerUps ?g k) = Num e"
    by (simp_all add: sweep_records)
  moreover from Cons.prems have "\<forall>t \<in> set ts. t \<le> e" by simp
  ultimately have "active (powerUps (sweeps ts ?g) k)" by (rule Cons.IH)
  then show ?case by (simp add: sweeps_def)
qed

lemma setPlayerProp_powerUps: "powerUps (setPlayerProp k g) = powerUps g"
  by (cases k) simp_all

lemma timed_kind_has_record:
  "ctype (GAME_CONFIG_powerUps k) = None \<Longrightarrow> k \<in> set powerUpKeys \<and> effectSound k \<noteq> None"
  by (cases k) (simp_all add: powerUpKeys_def)

lemma applyPowerUp_timed:
  assumes "ctype (GAME_CONFIG_powerUps k) = None"
    and "duration (GAME_CONFIG_powerUps k) = Some D"
  shows "active (powerUps (applyPowerUp k T g) k) \<and>
         expireTime (powerUps (applyPowerUp k T g) k) = Num (T + D)"
proof -
  from assms(1) obtain s where s: "effectSound k = Some s"
    using timed_kind_has_record by blast
  let ?g1 = "g\<lparr>score := score g + powerUpConfig.score (GAME_CONFIG_powerUps k)\<rparr>"
  have p: "powerUps (applyPowerUp k T g)
      = powerUps (handleTimedPowerUp k (GAME_CONFIG_powerUps k) T ?g1)"
    by (simp add: applyPowerUp_def Let_def assms(1))
  have q: "powerUps (handleTimedPowerUp k (GAME_CONFIG_powerUps k) T ?g1) k
      = (powerUps g k)\<lparr>active := True, expireTime := Num (T + D)\<rparr>"
    by (simp add: handleTimedPowerUp_def s Let_def setPlayerProp_powerUps assms(2))
  from p q show ?thesis by simp
qed

text \<open>
  C5, as amended. A timed kind (one whose configuration has a duration \<open>D\<close> and no
  \<open>type\<close>) that is collected at time \<open>T\<close> has its record active with expiry \<open>T + D\<close>.
  The record stays active through any sequence of per-frame sweeps run at times up to
  and including \<open>T + D\<close>, and it is inactive after a sweep run at any time later than
  \<open>T + D\<close>, whatever sweeps came before. A sweep run at time \<open>now\<close> switches off exactly
  the active records whose \<open>expireTime\<close> is not \<open>Infinity\<close> and is less than \<open>now\<close>, and
  it changes no \<open>expireTime\<close>.
\<close>

theorem timed_powerup_window:
  "(ctype (GAME_CONFIG_powerUps k) = None \<and> duration (GAME_CONFIG_powerUps k) = Some D \<longrightarrow>
      active (powerUps (applyPowerUp k T g) k) \<and>
      expireTime (powerUps (applyPowerUp k T g) k) = Num (T + D) \<and>
      ((\<forall>t \<in> set ts. t \<le> T + D) \<longrightarrow>
         active (powerUps (sweeps ts (applyPowerUp k T g)) k)) \<and>
      (T + D < T' \<longrightarrow>
         \<not> active (powerUps (updatePowerUpTimers T' (sweeps ts (applyPowerUp k T g))) k))) \<and>
   active (powerUps (updatePowerUpTimers now g) k)
     = (active (powerUps g k) \<and>
        \<not> (k \<in> set powerUpKeys \<and> expireTime (powerUps g k) \<noteq> Infinity \<and>
           js_gt now (expireTime (powerUps g k)))) \<and>
   expireTime (powerUps (updatePowerUpTimers now g) k) = expireTime (powerUps g k)"
proof -
  have timed: "active (powerUps (applyPowerUp k T g) k) \<and>
      expireTime (powerUps (applyPowerUp k T g) k) = Num (T + D) \<and>
      ((\<forall>t \<in> set ts. t \<le> T + D) \<longrightarrow>
         active (powerUps (sweeps ts (applyPowerUp k T g)) k)) \<and>
      (T + D < T' \<longrightarrow>
         \<not> active (powerUps (updatePowerUpTimers T' (sweeps ts (applyPowerUp k T g))) k))"
    if c: "ctype (GAME_CONFIG_powerUps k) = None"
      and d: "duration (GAME_CONFIG_powerUps k) = Some D"
  proof -
    let ?g = "applyPowerUp k T g"
    from c d have a: "active (powerUps ?g k)" and e: "expireTime (powerUps ?g k) = Num (T + D)"
      by (simp_all add: applyPowerUp_timed)
    from a e have keep: "(\<forall>t \<in> set ts. t \<le> T + D) \<longrightarrow> active (powerUps (sweeps ts ?g) k)"
      by (simp add: sweeps_keep_active)
    from c have key: "k \<in> set powerUpKeys"
      by (simp add: timed_kind_has_record)
    have "expireTime (powerUps (sweeps ts ?g) k) = Num (T + D)"
      by (simp add: sweeps_expireTime e)
    with key have "T + D < T' \<longrightarrow>
        \<not> active (powerUps (updatePowerUpTimers T' (sweeps ts ?g)) k)"
      by (simp add: sweep_records)
    with a e keep show ?thesis by simp
  qed
  from timed sweep_records [of now g k] show ?thesis by blast
qed

theorem timed_powerup_window_witness:
  "ctype (GAME_CONFIG_powerUps RapidFire) = None \<and>
   duration (GAME_CONFIG_powerUps RapidFire) = Some 5000 \<and>
   (1000 :: int) \<le> 1000 + 5000 \<and> (2000 :: int) \<le> 1000 + 5000 \<and>
   (6000 :: int) \<le> 1000 + 5000 \<and>
   active (powerUps (sweeps [1000, 2000, 6000] (applyPowerUp RapidFire 1000 (Game_new [])))
             RapidFire) \<and>
   1000 + 5000 < (6001 :: int) \<and>
   \<not> active (powerUps (updatePowerUpTimers 6001
               (sweeps [1000, 2000, 6000] (applyPowerUp RapidFire 1000 (Game_new []))))
             RapidFire)"
proof -
  have c: "ctype (GAME_CONFIG_powerUps RapidFire) = None"
    and d: "duration (GAME_CONFIG_powerUps RapidFire) = Some 5000"
    by simp_all
  have le: "\<forall>t \<in> set [1000, 2000, 6000 :: int]. t \<le> 1000 + 5000"
    and lt: "1000 + 5000 < (6001 :: int)"
    by simp_all
  from c d le lt timed_powerup_window
    [where k = RapidFire and D = 5000 and T = 1000 and g = "Game_new []"
       and ts = "[1000, 2000, 6000]" and T' = 6001 and now = 0]
  have "active (powerUps (sweeps [1000, 2000, 6000] (applyPowerUp RapidFire 1000 (Game_new [])))
                 RapidFire) \<and>
        \<not> active (powerUps (updatePowerUpTimers 6001
                    (sweeps [1000, 2000, 6000] (applyPowerUp RapidFire 1000 (Game_new []))))
                  RapidFire)"
    by blast
  with c d show ?thesis by simp
qed

text \<open>
  The claim as stated says that the record is inactive at every query time from \<open>T + D\<close>
  on. At the time \<open>T + D\<close> itself the sweep, which tests \<open>currentTime > expireTime\<close>,
  leaves the record active: rapid fire collected at time 0 lasts 5000 milliseconds and is
  still active after the sweep at time 5000.
\<close>

theorem powerup_boundary_counterexample:
  "\<not> ((0 :: int) + 5000 \<le> 5000 \<longrightarrow>
      \<not> active (powerUps (updatePowerUpTimers 5000 (applyPowerUp RapidFire 0 (Game_new [])))
                RapidFire))"
proof -
  have "active (powerUps (applyPowerUp RapidFire 0 (Game_new [])) RapidFire) \<and>
        expireTime (powerUps (applyPowerUp RapidFire 0 (Game_new [])) RapidFire)
          = Num (0 + 5000)"
    by (rule applyPowerUp_timed) simp_all
  then show ?thesis by (simp add: sweep_records)
qed

section \<open>Collision properties\<close>

text \<open>
  C7. The box-overlap test gives the same answer when its two arguments are exchanged,
  for all boxes: no condition is put on positions or sizes, so boxes of zero area and
  boxes one inside the other are included.
\<close>

theorem collision_symmetric:
  "collision a b = collision b a"
  by (auto simp: collision_def)



lemma hitAlien_grid: "spatialGrid (hitAlien bullet alien g) = spatialGrid g"
  by (simp add: hitAlien_def Let_def)












end
